theory Spec2Isabelle
  imports Complex_Main
begin

section \<open>Data model (types.ts)\<close>

text \<open>
  The string-literal union types of \<^verbatim>\<open>types.ts\<close> become datatypes. The profile
  types and the shape types share the literals \<^verbatim>\<open>round\<close> and \<^verbatim>\<open>square\<close>, so the
  constructors carry the name of their type as a prefix.
\<close>

datatype TopMaterial = sintered_stone | quartz | marble | granite

datatype TopShapeType =
  shape_rectangle | shape_square | shape_oval | shape_round | shape_custom

datatype TopEdgeFinish = straight | beveled | rounded | mitered

datatype TopConstruction = solid | composite

datatype LegMaterial = steel | stainless_steel | aluminum | solid_wood | laminated_wood

datatype LegProfileType =
  profile_round | profile_square | profile_rectangular | profile_trestle
  | profile_pedestal | radial_halfcylinder

text \<open>
  A TypeScript \<^verbatim>\<open>number\<close> is an IEEE 754 double. It is modelled as a finite real:
  the values NaN and the infinities are not inputs. The composite rules and the span
  limit compute with the rounded operations of the section on numbers (\<open>js_add\<close>,
  \<open>js_sub\<close>, \<open>js_mul\<close>), and the literal \<^verbatim>\<open>1.4\<close> is the double nearest to 1.4.
  The effective span is computed in doubles too; \<^verbatim>\<open>x ** 2\<close> and \<^verbatim>\<open>Math.sqrt\<close>, whose
  precision ECMAScript leaves to the implementation, are taken to be correctly rounded.
  The arithmetic of the other rules and of the suggester is exact. Where the source divides, a zero divisor is written out (\<open>js_div\<close>). Optional fields are \<open>option\<close>s, \<open>None\<close> standing for
  \<^verbatim>\<open>undefined\<close>. \<^verbatim>\<open>LegCount\<close> (1 to 6) and \<^verbatim>\<open>legRadialCount\<close> (3, 4, 5, 6 or 8)
  are natural numbers; \<open>wellTyped\<close> below states the ranges of the two types.
\<close>

record TableConfig =
  topMaterial :: TopMaterial
  topThicknessMm :: real
  topShapeType :: TopShapeType
  topLengthMm :: real
  topWidthMm :: real
  topEdgeFinish :: TopEdgeFinish
  topConstruction :: "TopConstruction option"
  topFaceThicknessMm :: "real option"
  legCount :: nat
  legMaterial :: LegMaterial
  legProfileType :: LegProfileType
  legProfileSizeMm :: real
  legProfileWidthMm :: "real option"
  legHeightMm :: real
  hasFootBase :: bool
  legRadialCount :: "nat option"
  legRadialSpreadMm :: "real option"
  totalHeightMm :: real

definition wellTyped :: "TableConfig \<Rightarrow> bool" where
  "wellTyped config \<longleftrightarrow>
     legCount config \<in> {1, 2, 3, 4, 5, 6} \<and>
     (case legRadialCount config of None \<Rightarrow> True | Some n \<Rightarrow> n \<in> {3, 4, 5, 6, 8})"

text \<open>
  A finding carries its rule identifier and the field it reports on. The two message
  texts are formatted from the same values and decide nothing; they are left out.
\<close>

record ValidationMessage =
  ruleId :: string
  field :: string

record ValidationResult =
  isValid :: bool
  warnings :: "ValidationMessage list"
  violations :: "ValidationMessage list"
  suggestedConfig :: "TableConfig option"

definition finding :: "string \<Rightarrow> string \<Rightarrow> ValidationMessage" where
  "finding rid fld = \<lparr>ruleId = rid, field = fld\<rparr>"

definition ruleIds :: "ValidationMessage list \<Rightarrow> string set" where
  "ruleIds ms = set (map ruleId ms)"

section \<open>Numbers\<close>

definition Math_ceil :: "real \<Rightarrow> real" where
  "Math_ceil x = real_of_int \<lceil>x\<rceil>"

definition Math_floor :: "real \<Rightarrow> real" where
  "Math_floor x = real_of_int \<lfloor>x\<rfloor>"

text \<open>
  Rounding to the nearest double, ties to even. A double \<open>x\<close> in the binade \<open>e\<close>,
  where \<open>2 powi e \<le> \<bar>x\<bar> < 2 powi (e + 1)\<close>, is a multiple of \<open>2 powi (e - 52)\<close>;
  below \<open>2 powi (- 1022)\<close> the spacing stays that of the lowest binade. Overflow to an
  infinity (from \<open>2 powi 1024\<close> on) is not modelled. The sum, difference and product of
  two doubles in JavaScript are the exact results rounded this way, and a decimal literal
  denotes the double nearest to it.
\<close>

definition rne :: "real \<Rightarrow> int" where
  "rne y =
     (let f = \<lfloor>y\<rfloor>; d = y - real_of_int f
      in if d < 1 / 2 then f
         else if d > 1 / 2 then f + 1
         else if even f then f else f + 1)"

definition binade :: "real \<Rightarrow> int" where
  "binade x = max \<lfloor>log 2 \<bar>x\<bar>\<rfloor> (- 1022)"

definition fl :: "real \<Rightarrow> real" where
  "fl x =
     (if x = 0 then 0
      else (let ulp = 2 powi (binade x - 52)
            in real_of_int (rne (x / ulp)) * ulp))"

definition js_add :: "real \<Rightarrow> real \<Rightarrow> real" where
  "js_add x y = fl (x + y)"

definition js_sub :: "real \<Rightarrow> real \<Rightarrow> real" where
  "js_sub x y = fl (x - y)"

definition js_mul :: "real \<Rightarrow> real \<Rightarrow> real" where
  "js_mul x y = fl (x * y)"

definition js_pow2 :: "real \<Rightarrow> real" where
  "js_pow2 x = fl (x * x)"

definition Math_sqrt :: "real \<Rightarrow> real" where
  "Math_sqrt x = fl (sqrt x)"

text \<open>
  Division of two finite numbers in JavaScript: a zero divisor gives an infinity or NaN,
  where HOL's \<open>x / 0\<close> is \<open>0\<close>. Every comparison with NaN is false.
\<close>

datatype quotient = Finite real | PosInfinity | NegInfinity | NaN

definition js_div :: "real \<Rightarrow> real \<Rightarrow> quotient" where
  "js_div x y =
     (if y \<noteq> 0 then Finite (x / y)
      else if 0 < x then PosInfinity
      else if x < 0 then NegInfinity
      else NaN)"

fun js_lt :: "quotient \<Rightarrow> real \<Rightarrow> bool" where
  "js_lt (Finite r) c = (r < c)"
| "js_lt PosInfinity c = False"
| "js_lt NegInfinity c = True"
| "js_lt NaN c = False"

fun js_gt :: "quotient \<Rightarrow> real \<Rightarrow> bool" where
  "js_gt (Finite r) c = (r > c)"
| "js_gt PosInfinity c = True"
| "js_gt NegInfinity c = False"
| "js_gt NaN c = False"

section \<open>Composite rules (compositeRules.ts)\<close>

definition COMPOSITE_FACE_MIN :: "TopMaterial \<Rightarrow> real option" where
  "COMPOSITE_FACE_MIN =
     [sintered_stone \<mapsto> 6, quartz \<mapsto> 12, marble \<mapsto> 12, granite \<mapsto> 12]"

definition MIN_CORE_MM :: real where
  "MIN_CORE_MM = 10"

text \<open>
  The three checks push onto one array in turn; each is a list of zero or one finding
  here, and the result is their concatenation in the order of the pushes.
\<close>

definition comp01 :: "TopMaterial \<Rightarrow> real \<Rightarrow> ValidationMessage list" where
  "comp01 material face =
     (case COMPOSITE_FACE_MIN material of
        None \<Rightarrow> []
      | Some faceMin \<Rightarrow>
          if face < faceMin then [finding ''COMP-01'' ''topFaceThicknessMm''] else [])"

definition comp02 :: "real \<Rightarrow> real \<Rightarrow> ValidationMessage list" where
  "comp02 thickness face =
     (let core = js_sub thickness (js_mul 2 face)
      in if core < MIN_CORE_MM then [finding ''COMP-02'' ''topFaceThicknessMm''] else [])"

definition comp03_condition :: "real \<Rightarrow> real \<Rightarrow> bool" where
  "comp03_condition thickness face \<longleftrightarrow>
     (let core = js_sub thickness (js_mul 2 face);
          minTotal = js_add (js_mul 2 face) MIN_CORE_MM
      in thickness < minTotal \<and> core \<ge> MIN_CORE_MM)"

definition comp03 :: "real \<Rightarrow> real \<Rightarrow> ValidationMessage list" where
  "comp03 thickness face =
     (if comp03_condition thickness face
      then [finding ''COMP-03'' ''topThicknessMm''] else [])"

definition checkCompositeTop :: "TableConfig \<Rightarrow> ValidationMessage list" where
  "checkCompositeTop config =
     (if topConstruction config \<noteq> Some composite then []
      else case topFaceThicknessMm config of
        None \<Rightarrow> []
      | Some face \<Rightarrow>
          comp01 (topMaterial config) face
          @ comp02 (topThicknessMm config) face
          @ comp03 (topThicknessMm config) face)"

section \<open>Material rules (materialRules.ts)\<close>

definition MATERIAL_MIN_THICKNESS :: "TopMaterial \<Rightarrow> real option" where
  "MATERIAL_MIN_THICKNESS =
     [sintered_stone \<mapsto> 12, quartz \<mapsto> 20, marble \<mapsto> 20, granite \<mapsto> 20]"

record SpanUpgrade =
  upg_materials :: "TopMaterial list"
  upg_spanThresholdMm :: real
  upg_minThicknessMm :: real

definition MATERIAL_SPAN_UPGRADE :: "SpanUpgrade list" where
  "MATERIAL_SPAN_UPGRADE =
     [\<lparr>upg_materials = [sintered_stone], upg_spanThresholdMm = 1200, upg_minThicknessMm = 20\<rparr>,
      \<lparr>upg_materials = [marble, granite], upg_spanThresholdMm = 1400, upg_minThicknessMm = 30\<rparr>]"

text \<open>
  A comparison with a missing table entry (\<^verbatim>\<open>undefined\<close>) is false in JavaScript, so
  a material without an entry raises no MAT-01.
\<close>

definition mat01 :: "TableConfig \<Rightarrow> ValidationMessage list" where
  "mat01 config =
     (case MATERIAL_MIN_THICKNESS (topMaterial config) of
        None \<Rightarrow> []
      | Some absMin \<Rightarrow>
          if topThicknessMm config < absMin then [finding ''MAT-01'' ''topThicknessMm''] else [])"

text \<open>The \<^verbatim>\<open>for\<close> loop over the upgrade table pushes one MAT-02 per rule that fires.\<close>

definition mat02 :: "TableConfig \<Rightarrow> ValidationMessage list" where
  "mat02 config =
     concat (map (\<lambda>rule.
        if topMaterial config \<in> set (upg_materials rule)
           \<and> topLengthMm config > upg_spanThresholdMm rule
           \<and> topThicknessMm config < upg_minThicknessMm rule
        then [finding ''MAT-02'' ''topThicknessMm''] else [])
      MATERIAL_SPAN_UPGRADE)"

definition checkMaterialThickness :: "TableConfig \<Rightarrow> ValidationMessage list" where
  "checkMaterialThickness config =
     (if topConstruction config = Some composite then []
      else mat01 config @ mat02 config)"

section \<open>Span rules (spanRules.ts)\<close>

record SpanLimit =
  span_materials :: "TopMaterial list"
  span_minThicknessMm :: real
  span_maxSpanMm :: real

definition SPAN_LIMITS_4LEG :: "SpanLimit list" where
  "SPAN_LIMITS_4LEG =
     [\<lparr>span_materials = [sintered_stone], span_minThicknessMm = 12, span_maxSpanMm = 900\<rparr>,
      \<lparr>span_materials = [sintered_stone], span_minThicknessMm = 20, span_maxSpanMm = 1800\<rparr>,
      \<lparr>span_materials = [quartz, marble, granite],
        span_minThicknessMm = 20, span_maxSpanMm = 1400\<rparr>,
      \<lparr>span_materials = [sintered_stone, quartz, marble, granite],
        span_minThicknessMm = 30, span_maxSpanMm = 2400\<rparr>]"

record PedestalLimit =
  ped_minThicknessMm :: real
  ped_maxDiagonalMm :: real

definition PEDESTAL_SPAN_LIMITS :: "PedestalLimit list" where
  "PEDESTAL_SPAN_LIMITS =
     [\<lparr>ped_minThicknessMm = 20, ped_maxDiagonalMm = 1000\<rparr>,
      \<lparr>ped_minThicknessMm = 30, ped_maxDiagonalMm = 1200\<rparr>]"

definition effectiveSpan :: "TableConfig \<Rightarrow> real" where
  "effectiveSpan config =
     (if topShapeType config = shape_round then topLengthMm config
      else Math_sqrt (js_add (js_pow2 (topLengthMm config)) (js_pow2 (topWidthMm config))))"

definition compositeMultiplier :: "TableConfig \<Rightarrow> real" where
  "compositeMultiplier config =
     (if topConstruction config = Some composite then fl 1.4 else 1.0)"

definition pedestalMaxDiag :: "TableConfig \<Rightarrow> real" where
  "pedestalMaxDiag config =
     (case find (\<lambda>l. topThicknessMm config \<ge> ped_minThicknessMm l) (rev PEDESTAL_SPAN_LIMITS) of
        Some limit \<Rightarrow> ped_maxDiagonalMm limit
      | None \<Rightarrow> 800)"

text \<open>
  \<^verbatim>\<open>sort((a, b) => b.minThicknessMm - a.minThicknessMm)\<close> is a stable sort by
  descending minimum thickness; \<open>sort_key\<close> is a stable insertion sort, here on the
  negated key.
\<close>

definition applicableRule :: "TableConfig \<Rightarrow> SpanLimit option" where
  "applicableRule config =
     find (\<lambda>r. topThicknessMm config \<ge> span_minThicknessMm r)
       (sort_key (\<lambda>r. - span_minThicknessMm r)
         (filter (\<lambda>r. topMaterial config \<in> set (span_materials r)) SPAN_LIMITS_4LEG))"

definition effectiveMaxSpan :: "TableConfig \<Rightarrow> SpanLimit \<Rightarrow> real" where
  "effectiveMaxSpan config rule = js_mul (span_maxSpanMm rule) (compositeMultiplier config)"

definition span01 :: "TableConfig \<Rightarrow> ValidationMessage list" where
  "span01 config =
     (let span = topLengthMm config
      in case applicableRule config of
           None \<Rightarrow> []
         | Some rule \<Rightarrow>
             if span > effectiveMaxSpan config rule
             then [finding ''SPAN-01'' ''topLengthMm''] else [])"

definition checkSpan :: "TableConfig \<Rightarrow> ValidationMessage list" where
  "checkSpan config =
     (if (legCount config = 1 \<or> legProfileType config = profile_pedestal)
         \<and> legProfileType config \<noteq> radial_halfcylinder
      then (if effectiveSpan config > pedestalMaxDiag config
            then [finding ''SPAN-02'' ''topLengthMm''] else [])
      else if legCount config = 2 \<or> legCount config = 4 \<or> legCount config = 6
      then span01 config
      else [])"

section \<open>Stability rules (stabilityRules.ts)\<close>

definition MIN_STABILITY_RATIO :: real where
  "MIN_STABILITY_RATIO = 0.45"

definition PEDESTAL_BASE_RATIO :: real where
  "PEDESTAL_BASE_RATIO = 0.4"

record FootBaseRule =
  maxLegHeightWithoutBase :: real
  minProfileForNoBase :: real

definition FOOT_BASE_RULES_metal :: FootBaseRule where
  "FOOT_BASE_RULES_metal = \<lparr>maxLegHeightWithoutBase = 700, minProfileForNoBase = 60\<rparr>"

definition FOOT_BASE_RULES_wood :: FootBaseRule where
  "FOOT_BASE_RULES_wood = \<lparr>maxLegHeightWithoutBase = 700, minProfileForNoBase = 80\<rparr>"

definition METAL_MATERIALS :: "LegMaterial set" where
  "METAL_MATERIALS = {steel, stainless_steel, aluminum}"

definition WOOD_MATERIALS :: "LegMaterial set" where
  "WOOD_MATERIALS = {solid_wood, laminated_wood}"

definition isRadial :: "TableConfig \<Rightarrow> bool" where
  "isRadial config \<longleftrightarrow> legProfileType config = radial_halfcylinder"

definition footprint :: "TableConfig \<Rightarrow> real" where
  "footprint config =
     (case legRadialSpreadMm config of
        Some spread \<Rightarrow> if isRadial config then spread * 2 else topWidthMm config
      | None \<Rightarrow> topWidthMm config)"

definition stab01 :: "TableConfig \<Rightarrow> ValidationMessage list" where
  "stab01 config =
     (let stabilityRatio = js_div (footprint config) (totalHeightMm config)
      in if js_lt stabilityRatio MIN_STABILITY_RATIO
         then [finding ''STAB-01'' ''topWidthMm''] else [])"

definition stab02 :: "TableConfig \<Rightarrow> ValidationMessage list" where
  "stab02 config =
     (if \<not> isRadial config \<and> (legCount config = 1 \<or> legProfileType config = profile_pedestal)
      then (let minBase = Math_ceil (PEDESTAL_BASE_RATIO * totalHeightMm config)
            in if legProfileSizeMm config < minBase
               then [finding ''STAB-02'' ''legProfileSizeMm''] else [])
      else [])"

definition footBaseRequired :: "FootBaseRule \<Rightarrow> TableConfig \<Rightarrow> ValidationMessage list" where
  "footBaseRequired rule config =
     (if legHeightMm config > maxLegHeightWithoutBase rule
         \<and> legProfileSizeMm config < minProfileForNoBase rule
         \<and> \<not> hasFootBase config
      then [finding ''STAB-03'' ''hasFootBase''] else [])"

definition stab03 :: "TableConfig \<Rightarrow> ValidationMessage list" where
  "stab03 config =
     (if \<not> isRadial config
      then (if legMaterial config \<in> METAL_MATERIALS
            then footBaseRequired FOOT_BASE_RULES_metal config else [])
           @ (if legMaterial config \<in> WOOD_MATERIALS
              then footBaseRequired FOOT_BASE_RULES_wood config else [])
      else [])"

definition checkStability :: "TableConfig \<Rightarrow> ValidationMessage list" where
  "checkStability config = stab01 config @ stab02 config @ stab03 config"

section \<open>Leg rules (legRules.ts)\<close>

record LegMinProfile =
  leg_materials :: "LegMaterial list"
  leg_profileType :: LegProfileType
  leg_minSizeMm :: real

definition LEG_MIN_PROFILES :: "LegMinProfile list" where
  "LEG_MIN_PROFILES =
     [\<lparr>leg_materials = [steel, stainless_steel, aluminum],
        leg_profileType = profile_round, leg_minSizeMm = 30\<rparr>,
      \<lparr>leg_materials = [steel, stainless_steel, aluminum],
        leg_profileType = profile_square, leg_minSizeMm = 40\<rparr>,
      \<lparr>leg_materials = [steel, stainless_steel, aluminum],
        leg_profileType = profile_rectangular, leg_minSizeMm = 40\<rparr>]"

definition WOOD_MIN_PROFILE_SHORT :: real where
  "WOOD_MIN_PROFILE_SHORT = 60"

definition WOOD_MIN_PROFILE_TALL :: real where
  "WOOD_MIN_PROFILE_TALL = 80"

definition WOOD_TALL_THRESHOLD :: real where
  "WOOD_TALL_THRESHOLD = 750"

definition MAX_SLENDERNESS_METAL :: real where
  "MAX_SLENDERNESS_METAL = 25"

definition MAX_SLENDERNESS_WOOD :: real where
  "MAX_SLENDERNESS_WOOD = 15"

definition PEDESTAL_VALID_SHAPES :: "TopShapeType set" where
  "PEDESTAL_VALID_SHAPES = {shape_round, shape_square}"

definition RADIAL_SPREAD_RATIO :: real where
  "RADIAL_SPREAD_RATIO = 0.4"

definition RADIAL_MIN_COUNT :: nat where
  "RADIAL_MIN_COUNT = 3"

definition RADIAL_MIN_DIAMETER_MM :: real where
  "RADIAL_MIN_DIAMETER_MM = 60"

definition radial01 :: "TableConfig \<Rightarrow> ValidationMessage list" where
  "radial01 config =
     (case legRadialSpreadMm config of
        None \<Rightarrow> []
      | Some spread \<Rightarrow>
          (let minSpread = Math_ceil (RADIAL_SPREAD_RATIO * totalHeightMm config)
           in if spread < minSpread
              then [finding ''RADIAL-01'' ''legRadialSpreadMm''] else []))"

definition radial02 :: "TableConfig \<Rightarrow> ValidationMessage list" where
  "radial02 config =
     (case legRadialCount config of
        None \<Rightarrow> []
      | Some n \<Rightarrow>
          if n < RADIAL_MIN_COUNT then [finding ''RADIAL-02'' ''legRadialCount''] else [])"

definition radial03 :: "TableConfig \<Rightarrow> ValidationMessage list" where
  "radial03 config =
     (if legProfileSizeMm config < RADIAL_MIN_DIAMETER_MM
      then [finding ''RADIAL-03'' ''legProfileSizeMm''] else [])"

definition leg01 :: "TableConfig \<Rightarrow> ValidationMessage list" where
  "leg01 config =
     (if legMaterial config \<in> METAL_MATERIALS
      then (case find (\<lambda>r. legMaterial config \<in> set (leg_materials r)
                          \<and> leg_profileType r = legProfileType config) LEG_MIN_PROFILES of
              None \<Rightarrow> []
            | Some rule \<Rightarrow>
                if legProfileSizeMm config < leg_minSizeMm rule
                then [finding ''LEG-01'' ''legProfileSizeMm''] else [])
      else [])"

definition leg02 :: "TableConfig \<Rightarrow> ValidationMessage list" where
  "leg02 config =
     (if legMaterial config \<in> WOOD_MATERIALS
      then (let minSize = (if legHeightMm config \<ge> WOOD_TALL_THRESHOLD
                           then WOOD_MIN_PROFILE_TALL else WOOD_MIN_PROFILE_SHORT)
            in if legProfileSizeMm config < minSize
               then [finding ''LEG-02'' ''legProfileSizeMm''] else [])
      else [])"

definition leg03 :: "TableConfig \<Rightarrow> ValidationMessage list" where
  "leg03 config =
     (let slenderness = js_div (legHeightMm config) (legProfileSizeMm config)
      in (if legMaterial config \<in> METAL_MATERIALS \<and> js_gt slenderness MAX_SLENDERNESS_METAL
          then [finding ''LEG-03'' ''legProfileSizeMm''] else [])
         @ (if legMaterial config \<in> WOOD_MATERIALS \<and> js_gt slenderness MAX_SLENDERNESS_WOOD
            then [finding ''LEG-03'' ''legProfileSizeMm''] else []))"

definition leg04 :: "TableConfig \<Rightarrow> ValidationMessage list" where
  "leg04 config =
     (if (legCount config = 1 \<or> legProfileType config = profile_pedestal)
         \<and> topShapeType config \<notin> PEDESTAL_VALID_SHAPES
      then [finding ''LEG-04'' ''legCount''] else [])"

definition leg05 :: "TableConfig \<Rightarrow> ValidationMessage list" where
  "leg05 config =
     (if (topShapeType config = shape_round \<or> topShapeType config = shape_oval)
         \<and> legCount config \<ge> 4
      then [finding ''LEG-05'' ''legCount''] else [])"

text \<open>
  The checker keeps two arrays and returns \<^verbatim>\<open>[...violations, ...warnings]\<close>; the only
  warning it pushes is LEG-05, after every violation.
\<close>

definition checkLegRules :: "TableConfig \<Rightarrow> ValidationMessage list" where
  "checkLegRules config =
     (if legProfileType config = radial_halfcylinder
      then (radial01 config @ radial02 config @ radial03 config) @ []
      else (leg01 config @ leg02 config @ leg03 config @ leg04 config) @ leg05 config)"

section \<open>Height rules (heightRules.ts)\<close>

definition MIN_TOTAL_HEIGHT :: real where
  "MIN_TOTAL_HEIGHT = 350"

definition MAX_TOTAL_HEIGHT :: real where
  "MAX_TOTAL_HEIGHT = 1100"

definition HEIGHT_TOLERANCE :: real where
  "HEIGHT_TOLERANCE = 2"

definition checkHeight :: "TableConfig \<Rightarrow> ValidationMessage list" where
  "checkHeight config =
     (if totalHeightMm config < MIN_TOTAL_HEIGHT
      then [finding ''HGT-01'' ''totalHeightMm''] else [])
     @ (if totalHeightMm config > MAX_TOTAL_HEIGHT
        then [finding ''HGT-01'' ''totalHeightMm''] else [])
     @ (let expectedTotal = legHeightMm config + topThicknessMm config;
            diff = \<bar>totalHeightMm config - expectedTotal\<bar>
        in if diff > HEIGHT_TOLERANCE
           then [finding ''HGT-03'' ''totalHeightMm''] else [])"

section \<open>Edge rules (edgeRules.ts)\<close>

definition EDGE_MIN_THICKNESS :: "TopEdgeFinish \<Rightarrow> real option" where
  "EDGE_MIN_THICKNESS = [mitered \<mapsto> 20, beveled \<mapsto> 12]"

definition edgeEffectiveThickness :: "TableConfig \<Rightarrow> real" where
  "edgeEffectiveThickness config =
     (case topFaceThicknessMm config of
        Some face \<Rightarrow>
          if topConstruction config = Some composite then face else topThicknessMm config
      | None \<Rightarrow> topThicknessMm config)"

definition checkEdge :: "TableConfig \<Rightarrow> ValidationMessage list" where
  "checkEdge config =
     (case EDGE_MIN_THICKNESS (topEdgeFinish config) of
        None \<Rightarrow> []
      | Some minThickness \<Rightarrow>
          if edgeEffectiveThickness config < minThickness
          then [finding (if topEdgeFinish config = mitered then ''EDGE-01'' else ''EDGE-02'')
                  ''topEdgeFinish'']
          else [])"

section \<open>Suggester (suggester.ts)\<close>

text \<open>
  \<^verbatim>\<open>applyFix\<close> mutates the working copy in place; here each fix takes the copy and
  returns the updated one. The suggester carries its own copies of the thresholds.
\<close>

definition matMin :: "TopMaterial \<Rightarrow> real option" where
  "matMin = [sintered_stone \<mapsto> 12, quartz \<mapsto> 20, marble \<mapsto> 20, granite \<mapsto> 20]"

definition metalMin :: "LegProfileType \<Rightarrow> real option" where
  "metalMin = [profile_round \<mapsto> 30, profile_square \<mapsto> 40, profile_rectangular \<mapsto> 40]"

definition faceMin :: "TopMaterial \<Rightarrow> real option" where
  "faceMin = [sintered_stone \<mapsto> 6, quartz \<mapsto> 12, marble \<mapsto> 12, granite \<mapsto> 12]"

definition isWoodMaterial :: "LegMaterial \<Rightarrow> bool" where
  "isWoodMaterial material \<longleftrightarrow> material = solid_wood \<or> material = laminated_wood"

definition spanBasedMinThickness :: "TableConfig \<Rightarrow> real" where
  "spanBasedMinThickness config =
     (if topMaterial config = sintered_stone \<and> topLengthMm config > 1200 then 20
      else if (topMaterial config = marble \<or> topMaterial config = granite)
              \<and> topLengthMm config > 1400 then 30
      else topThicknessMm config)"

definition minThicknessForSpan :: "TopMaterial \<Rightarrow> real \<Rightarrow> real option" where
  "minThicknessForSpan material spanMm =
     (if material = sintered_stone
      then (if spanMm \<le> 900 then Some 12
            else if spanMm \<le> 1800 then Some 20
            else if spanMm \<le> 2400 then Some 30
            else None)
      else if material = quartz \<or> material = marble \<or> material = granite
      then (if spanMm \<le> 1400 then Some 20
            else if spanMm \<le> 2400 then Some 30
            else None)
      else None)"

text \<open>
  In \<^verbatim>\<open>maxSpanForThickness\<close> a sintered-stone top thinner than 12 falls out of the
  first \<^verbatim>\<open>if\<close> block, fails the test of the second and reaches \<^verbatim>\<open>return null\<close>.
\<close>

definition maxSpanForThickness :: "TopMaterial \<Rightarrow> real \<Rightarrow> real option" where
  "maxSpanForThickness material thickness =
     (if material = sintered_stone \<and> thickness \<ge> 30 then Some 2400
      else if material = sintered_stone \<and> thickness \<ge> 20 then Some 1800
      else if material = sintered_stone \<and> thickness \<ge> 12 then Some 900
      else if (material = quartz \<or> material = marble \<or> material = granite)
              \<and> thickness \<ge> 30 then Some 2400
      else if (material = quartz \<or> material = marble \<or> material = granite)
              \<and> thickness \<ge> 20 then Some 1400
      else None)"

definition fix_MAT_01 :: "TableConfig \<Rightarrow> TableConfig" where
  "fix_MAT_01 config =
     (let min = (case matMin (topMaterial config) of Some m \<Rightarrow> m | None \<Rightarrow> 20)
      in if topThicknessMm config < min then config\<lparr>topThicknessMm := min\<rparr> else config)"

definition fix_MAT_02 :: "TableConfig \<Rightarrow> TableConfig" where
  "fix_MAT_02 config =
     (let spanMin = spanBasedMinThickness config
      in if topThicknessMm config < spanMin then config\<lparr>topThicknessMm := spanMin\<rparr>
         else config)"

definition fix_SPAN_01 :: "TableConfig \<Rightarrow> TableConfig" where
  "fix_SPAN_01 config =
     (case minThicknessForSpan (topMaterial config) (topLengthMm config) of
        Some requiredThickness \<Rightarrow>
          config\<lparr>topThicknessMm := max (topThicknessMm config) requiredThickness\<rparr>
      | None \<Rightarrow>
          (case maxSpanForThickness (topMaterial config) (topThicknessMm config) of
             Some maxLen \<Rightarrow> config\<lparr>topLengthMm := maxLen\<rparr>
           | None \<Rightarrow> config))"

definition fix_SPAN_02 :: "TableConfig \<Rightarrow> TableConfig" where
  "fix_SPAN_02 config =
     (if topThicknessMm config < 30 then config\<lparr>topThicknessMm := 30\<rparr>
      else (let maxDiag = 1200;
                currentDiag = sqrt ((topLengthMm config)\<^sup>2 + (topWidthMm config)\<^sup>2)
            in if currentDiag > maxDiag
               then (let scale = maxDiag / currentDiag
                     in config\<lparr>topLengthMm := Math_floor (topLengthMm config * scale),
                               topWidthMm := Math_floor (topWidthMm config * scale)\<rparr>)
               else config))"

definition fix_STAB_01 :: "TableConfig \<Rightarrow> TableConfig" where
  "fix_STAB_01 config =
     (let minWidth = Math_ceil (0.45 * totalHeightMm config)
      in if topWidthMm config < minWidth then config\<lparr>topWidthMm := minWidth\<rparr> else config)"

definition fix_STAB_02 :: "TableConfig \<Rightarrow> TableConfig" where
  "fix_STAB_02 config =
     (let minBase = Math_ceil (0.4 * totalHeightMm config)
      in if legProfileSizeMm config < minBase then config\<lparr>legProfileSizeMm := minBase\<rparr>
         else config)"

definition fix_STAB_03 :: "TableConfig \<Rightarrow> TableConfig" where
  "fix_STAB_03 config = config\<lparr>hasFootBase := True\<rparr>"

definition fix_LEG_01 :: "TableConfig \<Rightarrow> TableConfig" where
  "fix_LEG_01 config =
     (let min = (case metalMin (legProfileType config) of Some m \<Rightarrow> m | None \<Rightarrow> 40)
      in if legProfileSizeMm config < min then config\<lparr>legProfileSizeMm := min\<rparr>
         else config)"

definition fix_LEG_02 :: "TableConfig \<Rightarrow> TableConfig" where
  "fix_LEG_02 config =
     (let min = (if legHeightMm config \<ge> 750 then 80 else 60)
      in if legProfileSizeMm config < min then config\<lparr>legProfileSizeMm := min\<rparr>
         else config)"

definition fix_LEG_03 :: "TableConfig \<Rightarrow> TableConfig" where
  "fix_LEG_03 config =
     (let maxSlenderness = (if isWoodMaterial (legMaterial config) then 15 else 25);
          minProfile = Math_ceil (legHeightMm config / maxSlenderness)
      in if legProfileSizeMm config < minProfile
         then config\<lparr>legProfileSizeMm := minProfile\<rparr> else config)"

definition fix_LEG_04 :: "TableConfig \<Rightarrow> TableConfig" where
  "fix_LEG_04 config =
     (let config4 = config\<lparr>legCount := 4\<rparr>
      in if legProfileType config4 = profile_pedestal
         then config4\<lparr>legProfileType := profile_square\<rparr> else config4)"

definition fix_HGT_01 :: "TableConfig \<Rightarrow> TableConfig" where
  "fix_HGT_01 config =
     (if totalHeightMm config < 550
      then config\<lparr>totalHeightMm := 550, legHeightMm := 550 - topThicknessMm config\<rparr>
      else if totalHeightMm config > 1100
      then config\<lparr>totalHeightMm := 1100, legHeightMm := 1100 - topThicknessMm config\<rparr>
      else config)"

definition fix_HGT_03 :: "TableConfig \<Rightarrow> TableConfig" where
  "fix_HGT_03 config =
     config\<lparr>totalHeightMm := legHeightMm config + topThicknessMm config\<rparr>"

definition fix_EDGE_01 :: "TableConfig \<Rightarrow> TableConfig" where
  "fix_EDGE_01 config =
     (if topThicknessMm config < 20 then config\<lparr>topThicknessMm := 20\<rparr> else config)"

definition fix_EDGE_02 :: "TableConfig \<Rightarrow> TableConfig" where
  "fix_EDGE_02 config =
     (if topThicknessMm config < 12 then config\<lparr>topEdgeFinish := straight\<rparr>
      else config\<lparr>topThicknessMm := 12\<rparr>)"

definition fix_COMP_01 :: "TableConfig \<Rightarrow> TableConfig" where
  "fix_COMP_01 config =
     (let min = (case faceMin (topMaterial config) of Some m \<Rightarrow> m | None \<Rightarrow> 12)
      in if (case topFaceThicknessMm config of Some f \<Rightarrow> f | None \<Rightarrow> 0) < min
         then config\<lparr>topFaceThicknessMm := Some min\<rparr> else config)"

definition fix_COMP_02 :: "TableConfig \<Rightarrow> TableConfig" where
  "fix_COMP_02 config =
     (let face = (case topFaceThicknessMm config of Some f \<Rightarrow> f | None \<Rightarrow> 6);
          minTotal = 2 * face + 10
      in if topThicknessMm config < minTotal then config\<lparr>topThicknessMm := minTotal\<rparr>
         else config)"

definition fix_COMP_03 :: "TableConfig \<Rightarrow> TableConfig" where
  "fix_COMP_03 config =
     (let face = (case topFaceThicknessMm config of Some f \<Rightarrow> f | None \<Rightarrow> 6);
          minTotal = 2 * face + 10
      in if topThicknessMm config < minTotal then config\<lparr>topThicknessMm := minTotal\<rparr>
         else config)"

definition fix_RADIAL_01 :: "TableConfig \<Rightarrow> TableConfig" where
  "fix_RADIAL_01 config =
     (let minSpread = Math_ceil (0.4 * totalHeightMm config)
      in if (case legRadialSpreadMm config of Some s \<Rightarrow> s | None \<Rightarrow> 0) < minSpread
         then config\<lparr>legRadialSpreadMm := Some minSpread\<rparr> else config)"

definition fix_RADIAL_02 :: "TableConfig \<Rightarrow> TableConfig" where
  "fix_RADIAL_02 config = config\<lparr>legRadialCount := Some 3\<rparr>"

definition fix_RADIAL_03 :: "TableConfig \<Rightarrow> TableConfig" where
  "fix_RADIAL_03 config =
     (if legProfileSizeMm config < 60 then config\<lparr>legProfileSizeMm := 60\<rparr> else config)"

text \<open>The \<^verbatim>\<open>switch\<close> on the rule identifier; the \<^verbatim>\<open>default\<close> case changes nothing.\<close>

definition applyFix :: "TableConfig \<Rightarrow> ValidationMessage \<Rightarrow> TableConfig" where
  "applyFix config violation =
     (let rid = ruleId violation
      in if rid = ''MAT-01'' then fix_MAT_01 config
         else if rid = ''MAT-02'' then fix_MAT_02 config
         else if rid = ''SPAN-01'' then fix_SPAN_01 config
         else if rid = ''SPAN-02'' then fix_SPAN_02 config
         else if rid = ''STAB-01'' then fix_STAB_01 config
         else if rid = ''STAB-02'' then fix_STAB_02 config
         else if rid = ''STAB-03'' then fix_STAB_03 config
         else if rid = ''LEG-01'' then fix_LEG_01 config
         else if rid = ''LEG-02'' then fix_LEG_02 config
         else if rid = ''LEG-03'' then fix_LEG_03 config
         else if rid = ''LEG-04'' then fix_LEG_04 config
         else if rid = ''HGT-01'' then fix_HGT_01 config
         else if rid = ''HGT-03'' then fix_HGT_03 config
         else if rid = ''EDGE-01'' then fix_EDGE_01 config
         else if rid = ''EDGE-02'' then fix_EDGE_02 config
         else if rid = ''COMP-01'' then fix_COMP_01 config
         else if rid = ''COMP-02'' then fix_COMP_02 config
         else if rid = ''COMP-03'' then fix_COMP_03 config
         else if rid = ''RADIAL-01'' then fix_RADIAL_01 config
         else if rid = ''RADIAL-02'' then fix_RADIAL_02 config
         else if rid = ''RADIAL-03'' then fix_RADIAL_03 config
         else config)"

text \<open>
  The \<^verbatim>\<open>for\<close> loop applies the fixes to the copy in the order of the violation list;
  the last statement recomputes the total height from the repaired copy.
\<close>

definition generateSuggestion :: "TableConfig \<Rightarrow> ValidationMessage list \<Rightarrow> TableConfig" where
  "generateSuggestion original vs =
     (let suggested = foldl applyFix original vs
      in suggested\<lparr>totalHeightMm := legHeightMm suggested + topThicknessMm suggested\<rparr>)"

section \<open>Engine (engine.ts)\<close>

definition WARNING_RULE_IDS :: "string set" where
  "WARNING_RULE_IDS = {''LEG-05''}"

definition allMessages :: "TableConfig \<Rightarrow> ValidationMessage list" where
  "allMessages config =
     checkCompositeTop config
     @ checkMaterialThickness config
     @ checkSpan config
     @ checkStability config
     @ checkLegRules config
     @ checkHeight config
     @ checkEdge config"

definition validate :: "TableConfig \<Rightarrow> ValidationResult" where
  "validate config =
     (let vs = filter (\<lambda>m. ruleId m \<notin> WARNING_RULE_IDS) (allMessages config);
          ws = filter (\<lambda>m. ruleId m \<in> WARNING_RULE_IDS) (allMessages config);
          valid = (length vs = 0)
      in \<lparr>isValid = valid, warnings = ws, violations = vs,
          suggestedConfig = (if \<not> valid then Some (generateSuggestion config vs) else None)\<rparr>)"

section \<open>Configurations of the test suite (engine.test.ts)\<close>

text \<open>\<^verbatim>\<open>base()\<close>, the configuration of TC-01: every other test case updates it.\<close>

definition tc01 :: TableConfig where
  "tc01 = \<lparr>topMaterial = sintered_stone, topThicknessMm = 20, topShapeType = shape_rectangle,
     topLengthMm = 1800, topWidthMm = 900, topEdgeFinish = straight,
     topConstruction = None, topFaceThicknessMm = None,
     legCount = 4, legMaterial = steel, legProfileType = profile_square,
     legProfileSizeMm = 60, legProfileWidthMm = None, legHeightMm = 700,
     hasFootBase = False, legRadialCount = None, legRadialSpreadMm = None,
     totalHeightMm = 720\<rparr>"

definition tc02 :: TableConfig where
  "tc02 = tc01\<lparr>topThicknessMm := 12, topLengthMm := 1600, topWidthMm := 800,
     legHeightMm := 688, totalHeightMm := 700\<rparr>"

definition tc03 :: TableConfig where
  "tc03 = tc01\<lparr>topShapeType := shape_round, topLengthMm := 1200, topWidthMm := 1200,
     legCount := 1, legProfileType := profile_pedestal, legProfileSizeMm := 50,
     legHeightMm := 730, totalHeightMm := 750\<rparr>"

definition tc14 :: TableConfig where
  "tc14 = tc01\<lparr>topShapeType := shape_oval, legCount := 4\<rparr>"

definition tc17 :: TableConfig where
  "tc17 = tc01\<lparr>topConstruction := Some composite, topMaterial := quartz,
     topThicknessMm := 30, topFaceThicknessMm := Some 4, legHeightMm := 700,
     totalHeightMm := 730\<rparr>"

definition tc19 :: TableConfig where
  "tc19 = tc01\<lparr>legProfileType := radial_halfcylinder, legRadialCount := Some 4,
     legRadialSpreadMm := Some 200, legProfileSizeMm := 80, legCount := 1,
     legHeightMm := 730, totalHeightMm := 750\<rparr>"

text \<open>Further configurations: TC-17 with a beveled edge, TC-19 with no spread given, and
  a solid 10 mm quartz top with a beveled edge on the legs of TC-15.\<close>

definition tc17_beveled :: TableConfig where
  "tc17_beveled = tc17\<lparr>topEdgeFinish := beveled\<rparr>"

definition tc19_no_spread :: TableConfig where
  "tc19_no_spread = tc19\<lparr>legRadialSpreadMm := None\<rparr>"



definition thin_quartz_beveled :: TableConfig where
  "thin_quartz_beveled = \<lparr>topMaterial = quartz, topThicknessMm = 10,
     topShapeType = shape_rectangle, topLengthMm = 1200, topWidthMm = 600,
     topEdgeFinish = beveled, topConstruction = None, topFaceThicknessMm = None,
     legCount = 4, legMaterial = steel, legProfileType = profile_square,
     legProfileSizeMm = 50, legProfileWidthMm = None, legHeightMm = 430,
     hasFootBase = False, legRadialCount = None, legRadialSpreadMm = None,
     totalHeightMm = 440\<rparr>"

section \<open>Vocabulary of the properties\<close>

text \<open>
  The checker that emits a rule identifier, as the rule modules assign them, and the
  position of a finding's checker in an order of the seven checkers. A list of findings
  is ordered by an order of checkers when no finding of a later checker comes before a
  finding of an earlier one.
\<close>

datatype Checker = Composite | Material | Span | Stability | Leg | Height | Edge

definition checkerOf :: "string \<Rightarrow> Checker option" where
  "checkerOf rid =
     (if rid \<in> {''COMP-01'', ''COMP-02'', ''COMP-03''} then Some Composite
      else if rid \<in> {''MAT-01'', ''MAT-02''} then Some Material
      else if rid \<in> {''SPAN-01'', ''SPAN-02''} then Some Span
      else if rid \<in> {''STAB-01'', ''STAB-02'', ''STAB-03''} then Some Stability
      else if rid \<in> {''LEG-01'', ''LEG-02'', ''LEG-03'', ''LEG-04'', ''LEG-05'',
                      ''RADIAL-01'', ''RADIAL-02'', ''RADIAL-03''} then Some Leg
      else if rid \<in> {''HGT-01'', ''HGT-03''} then Some Height
      else if rid \<in> {''EDGE-01'', ''EDGE-02''} then Some Edge
      else None)"

fun indexOf :: "'a \<Rightarrow> 'a list \<Rightarrow> nat" where
  "indexOf x [] = 0"
| "indexOf x (y # ys) = (if x = y then 0 else Suc (indexOf x ys))"

definition position :: "Checker list \<Rightarrow> string \<Rightarrow> nat" where
  "position order rid =
     (case checkerOf rid of Some k \<Rightarrow> indexOf k order | None \<Rightarrow> length order)"

definition orderedBy :: "Checker list \<Rightarrow> ValidationMessage list \<Rightarrow> bool" where
  "orderedBy order ms = sorted (map (\<lambda>m. position order (ruleId m)) ms)"

text \<open>The order in which \<open>validate\<close> spreads the checkers' results into one array.\<close>

definition engineOrder :: "Checker list" where
  "engineOrder = [Composite, Material, Span, Stability, Leg, Height, Edge]"

text \<open>The order as the specification words it: material first, composite last.\<close>

definition claimedOrder :: "Checker list" where
  "claimedOrder = [Material, Span, Stability, Leg, Height, Edge, Composite]"



section \<open>Rounding\<close>

lemma rne_of_int: "rne (real_of_int k) = k"
  by (simp add: rne_def)

lemma binade_eq:
  assumes "2 powi e \<le> \<bar>x\<bar>" and "\<bar>x\<bar> < 2 powi (e + 1)" and "- 1022 \<le> e"
  shows "binade x = e"
proof -
  have pos: "0 < \<bar>x\<bar>"
    using assms(1) by (smt (verit) zero_less_power_int)
  have "2 powr real_of_int e \<le> \<bar>x\<bar>"
    using assms(1) by (simp add: powr_real_of_int')
  moreover have "\<bar>x\<bar> < 2 powr (real_of_int e + 1)"
    using assms(2) powr_real_of_int' [of 2 "e + 1"] by simp
  ultimately have "\<lfloor>log 2 \<bar>x\<bar>\<rfloor> = e"
    using pos by (simp add: floor_log_eq_powr_iff)
  then show ?thesis
    using assms(3) by (simp add: binade_def)
qed

lemma fl_in_binade:
  assumes "2 powi e \<le> \<bar>x\<bar>" and "\<bar>x\<bar> < 2 powi (e + 1)" and "- 1022 \<le> e" and "e \<le> 52"
  shows "fl x = real_of_int (rne (x * 2 ^ nat (52 - e))) / 2 ^ nat (52 - e)"
proof -
  have "x \<noteq> 0"
    using assms(1) by (smt (verit) zero_less_power_int)
  moreover have "(2::real) powi (e - 52) = 1 / 2 ^ nat (52 - e)"
    using assms(4) by (simp add: power_int_def field_simps)
  ultimately show ?thesis
    by (simp add: fl_def Let_def binade_eq [OF assms(1,2,3)])
qed

lemma fl_of_int:
  assumes "\<bar>n\<bar> < 2 ^ 53"
  shows "fl (real_of_int n) = real_of_int n"
proof (cases "n = 0")
  case True
  then show ?thesis by (simp add: fl_def)
next
  case False
  define e where "e = \<lfloor>log 2 \<bar>real_of_int n\<bar>\<rfloor>"
  have "1 \<le> \<bar>n\<bar>"
    using False by linarith
  then have "real_of_int 1 \<le> real_of_int \<bar>n\<bar>"
    by (simp only: of_int_le_iff)
  then have one: "1 \<le> \<bar>real_of_int n\<bar>"
    by simp
  have bounds: "2 powr real_of_int e \<le> \<bar>real_of_int n\<bar>" "\<bar>real_of_int n\<bar> < 2 powr (real_of_int e + 1)"
    using one floor_log_eq_powr_iff [of "\<bar>real_of_int n\<bar>" 2 e] by (simp_all add: e_def)
  have e0: "0 \<le> e"
    using one by (simp add: e_def)
  have lt: "\<bar>real_of_int n\<bar> < 2 ^ 53"
    using assms by (metis of_int_abs of_int_less_iff of_int_numeral of_int_power)
  have "log 2 \<bar>real_of_int n\<bar> < 53"
    using lt one by (simp add: log_less_iff)
  then have e52: "e \<le> 52"
    by (simp add: e_def floor_le_iff)
  have b1: "2 powi e \<le> \<bar>real_of_int n\<bar>"
    using bounds(1) by (simp add: powr_real_of_int')
  have b2: "\<bar>real_of_int n\<bar> < 2 powi (e + 1)"
    using bounds(2) powr_real_of_int' [of 2 "e + 1"] by simp
  have "real_of_int n * 2 ^ nat (52 - e) = real_of_int (n * 2 ^ nat (52 - e))"
    by simp
  then have "rne (real_of_int n * 2 ^ nat (52 - e)) = n * 2 ^ nat (52 - e)"
    by (simp only: rne_of_int)
  then show ?thesis
    using fl_in_binade [OF b1 b2 _ e52] e0 by simp
qed

lemma fl_numeral: "numeral k < (2::int) ^ 53 \<Longrightarrow> fl (numeral k) = numeral k"
  using fl_of_int [of "numeral k"] by simp

lemma js_mul_one: "js_mul x 1 = fl x"
  by (simp add: js_mul_def)

lemma js_mul_numeral:
  "numeral a * numeral b < (2::int) ^ 53 \<Longrightarrow>
   js_mul (numeral a) (numeral b) = numeral a * numeral b"
  using fl_of_int [of "numeral a * numeral b"] by (simp add: js_mul_def)

lemma rne_ge_floor: "\<lfloor>y\<rfloor> \<le> rne y"
  by (simp add: rne_def Let_def)

lemma fl_ge_in_binade:
  assumes "2 powi e \<le> \<bar>x\<bar>" and "\<bar>x\<bar> < 2 powi (e + 1)" and "- 1022 \<le> e" and "e \<le> 52"
    and "real_of_int k \<le> x * 2 ^ nat (52 - e)"
  shows "real_of_int k / 2 ^ nat (52 - e) \<le> fl x"
proof -
  have "k \<le> \<lfloor>x * 2 ^ nat (52 - e)\<rfloor>"
    using assms(5) by (simp add: le_floor_iff)
  also have "\<dots> \<le> rne (x * 2 ^ nat (52 - e))"
    by (rule rne_ge_floor)
  finally have "real_of_int k \<le> real_of_int (rne (x * 2 ^ nat (52 - e)))"
    by (simp only: of_int_le_iff)
  then show ?thesis
    by (simp add: fl_in_binade [OF assms(1,2,3,4)] divide_right_mono)
qed

lemma fl_neg_numeral: "numeral k < (2::int) ^ 53 \<Longrightarrow> fl (- numeral k) = - numeral k"
  using fl_of_int [of "- numeral k"] by simp

lemma fl_zero: "fl 0 = 0"
  by (simp add: fl_def)

lemma fl_one: "fl 1 = 1"
  using fl_of_int [of 1] by simp

text \<open>The literal \<^verbatim>\<open>1.4\<close> and the four span limits of a composite top.\<close>

lemma fl_1_4: "fl 1.4 = 3152519739159347 / 2251799813685248"
  by (subst fl_in_binade [where e = 0]) (simp_all add: rne_def Let_def)

lemma compositeMultiplier_composite:
  "topConstruction config = Some composite \<Longrightarrow>
   compositeMultiplier config = 3152519739159347 / 2251799813685248"
  unfolding compositeMultiplier_def fl_1_4 by simp

lemma compositeMultiplier_solid:
  "topConstruction config \<noteq> Some composite \<Longrightarrow> compositeMultiplier config = 1"
  by (simp add: compositeMultiplier_def)

lemma composite_limit_900: "js_mul 900 (3152519739159347 / 2251799813685248) = 1260"
  unfolding js_mul_def
  by (subst fl_in_binade [where e = 10]) (simp_all add: rne_def Let_def)

lemma composite_limit_1800: "js_mul 1800 (3152519739159347 / 2251799813685248) = 2520"
  unfolding js_mul_def
  by (subst fl_in_binade [where e = 11]) (simp_all add: rne_def Let_def)

lemma composite_limit_1400:
  "js_mul 1400 (3152519739159347 / 2251799813685248) = 1960 - 1 / 2 ^ 42"
  unfolding js_mul_def
  by (subst fl_in_binade [where e = 10]) (simp_all add: rne_def Let_def)

lemma composite_limit_2400: "js_mul 2400 (3152519739159347 / 2251799813685248) = 3360"
  unfolding js_mul_def
  by (subst fl_in_binade [where e = 11]) (simp_all add: rne_def Let_def)

lemmas js_evals =
  fl_numeral fl_neg_numeral fl_zero fl_one js_mul_one js_mul_numeral js_add_def js_sub_def
  js_pow2_def
  compositeMultiplier_composite compositeMultiplier_solid
  composite_limit_900 composite_limit_1800 composite_limit_1400 composite_limit_2400

section \<open>Evaluating the checkers\<close>

lemmas table_defs =
  MATERIAL_MIN_THICKNESS_def MATERIAL_SPAN_UPGRADE_def SPAN_LIMITS_4LEG_def
  PEDESTAL_SPAN_LIMITS_def FOOT_BASE_RULES_metal_def FOOT_BASE_RULES_wood_def
  METAL_MATERIALS_def WOOD_MATERIALS_def MIN_STABILITY_RATIO_def PEDESTAL_BASE_RATIO_def
  LEG_MIN_PROFILES_def WOOD_MIN_PROFILE_SHORT_def WOOD_MIN_PROFILE_TALL_def
  WOOD_TALL_THRESHOLD_def MAX_SLENDERNESS_METAL_def MAX_SLENDERNESS_WOOD_def
  PEDESTAL_VALID_SHAPES_def RADIAL_SPREAD_RATIO_def RADIAL_MIN_COUNT_def
  RADIAL_MIN_DIAMETER_MM_def MIN_TOTAL_HEIGHT_def MAX_TOTAL_HEIGHT_def HEIGHT_TOLERANCE_def
  EDGE_MIN_THICKNESS_def COMPOSITE_FACE_MIN_def MIN_CORE_MM_def

lemmas rule_defs =
  comp01_def comp02_def comp03_def comp03_condition_def
  mat01_def mat02_def span01_def applicableRule_def pedestalMaxDiag_def
  effectiveSpan_def effectiveMaxSpan_def js_evals
  stab01_def stab02_def stab03_def footprint_def isRadial_def footBaseRequired_def
  radial01_def radial02_def radial03_def leg01_def leg02_def leg03_def leg04_def leg05_def
  edgeEffectiveThickness_def js_div_def Math_ceil_def Math_floor_def finding_def

lemmas checker_defs =
  checkCompositeTop_def checkMaterialThickness_def checkSpan_def checkStability_def
  checkLegRules_def checkHeight_def checkEdge_def

lemma ruleIds_append: "ruleIds (xs @ ys) = ruleIds xs \<union> ruleIds ys"
  by (simp add: ruleIds_def)

lemma ruleIds_Nil: "ruleIds [] = {}"
  by (simp add: ruleIds_def)

lemma ruleIds_finding: "ruleIds [finding r f] = {r}"
  by (simp add: ruleIds_def finding_def)

lemma allMessages_tc14: "allMessages tc14 = [finding ''LEG-05'' ''legCount'']"
  by (simp add: allMessages_def tc14_def tc01_def checker_defs rule_defs table_defs)

lemma allMessages_tc17: "allMessages tc17 = [finding ''COMP-01'' ''topFaceThicknessMm'']"
  by (simp add: allMessages_def tc17_def tc01_def checker_defs rule_defs table_defs)

lemma allMessages_tc19: "allMessages tc19 = [finding ''RADIAL-01'' ''legRadialSpreadMm'']"
  by (simp add: allMessages_def tc19_def tc01_def checker_defs rule_defs table_defs)

section \<open>Rule identifiers of each checker\<close>

lemma ruleIds_checkCompositeTop:
  "ruleIds (checkCompositeTop config) \<subseteq> {''COMP-01'', ''COMP-02'', ''COMP-03''}"
  by (auto simp: checkCompositeTop_def comp01_def comp02_def comp03_def Let_def
      ruleIds_append ruleIds_finding ruleIds_Nil split: option.splits if_splits)

lemma ruleIds_checkMaterialThickness:
  "ruleIds (checkMaterialThickness config) \<subseteq> {''MAT-01'', ''MAT-02''}"
  by (auto simp: checkMaterialThickness_def mat01_def mat02_def MATERIAL_SPAN_UPGRADE_def
      ruleIds_append ruleIds_finding ruleIds_Nil split: option.splits if_splits)

lemma ruleIds_span01: "ruleIds (span01 config) \<subseteq> {''SPAN-01''}"
  by (auto simp: span01_def Let_def ruleIds_finding ruleIds_Nil split: option.splits if_splits)

lemma ruleIds_checkSpan:
  "ruleIds (checkSpan config) \<subseteq> {''SPAN-01'', ''SPAN-02''}"
  using ruleIds_span01 [of config]
  by (auto simp: checkSpan_def ruleIds_finding ruleIds_Nil split: if_splits)

lemma ruleIds_checkSpan_radial:
  "legProfileType config = radial_halfcylinder \<Longrightarrow> ruleIds (checkSpan config) \<subseteq> {''SPAN-01''}"
  using ruleIds_span01 [of config]
  by (auto simp: checkSpan_def ruleIds_finding ruleIds_Nil split: if_splits)

lemma ruleIds_checkStability:
  "ruleIds (checkStability config) \<subseteq> {''STAB-01'', ''STAB-02'', ''STAB-03''}"
  by (auto simp: checkStability_def stab01_def stab02_def stab03_def footBaseRequired_def Let_def
      ruleIds_append ruleIds_finding ruleIds_Nil split: if_splits)

lemma ruleIds_checkStability_radial:
  "legProfileType config = radial_halfcylinder \<Longrightarrow> ruleIds (checkStability config) \<subseteq> {''STAB-01''}"
  by (auto simp: checkStability_def stab01_def stab02_def stab03_def isRadial_def Let_def
      ruleIds_append ruleIds_finding ruleIds_Nil split: if_splits)

lemma ruleIds_checkLegRules:
  "ruleIds (checkLegRules config) \<subseteq>
     {''LEG-01'', ''LEG-02'', ''LEG-03'', ''LEG-04'', ''LEG-05'',
      ''RADIAL-01'', ''RADIAL-02'', ''RADIAL-03''}"
  by (auto simp: checkLegRules_def radial01_def radial02_def radial03_def
      leg01_def leg02_def leg03_def leg04_def leg05_def Let_def
      ruleIds_append ruleIds_finding ruleIds_Nil split: option.splits if_splits)

lemma ruleIds_checkLegRules_radial:
  "legProfileType config = radial_halfcylinder \<Longrightarrow>
   ruleIds (checkLegRules config) \<subseteq> {''RADIAL-01'', ''RADIAL-02'', ''RADIAL-03''}"
  by (auto simp: checkLegRules_def radial01_def radial02_def radial03_def Let_def
      ruleIds_append ruleIds_finding ruleIds_Nil split: option.splits if_splits)

lemma ruleIds_checkHeight:
  "ruleIds (checkHeight config) \<subseteq> {''HGT-01'', ''HGT-03''}"
  by (auto simp: checkHeight_def Let_def
      ruleIds_append ruleIds_finding ruleIds_Nil split: if_splits)

lemma ruleIds_checkEdge:
  "ruleIds (checkEdge config) \<subseteq> {''EDGE-01'', ''EDGE-02''}"
  by (auto simp: checkEdge_def ruleIds_finding ruleIds_Nil split: option.splits if_splits)

section \<open>The composite checker\<close>














section \<open>The engine\<close>

lemma validate_violations:
  "violations (validate config) = filter (\<lambda>m. ruleId m \<notin> WARNING_RULE_IDS) (allMessages config)"
  by (simp add: validate_def Let_def)

lemma validate_warnings:
  "warnings (validate config) = filter (\<lambda>m. ruleId m \<in> WARNING_RULE_IDS) (allMessages config)"
  by (simp add: validate_def Let_def)

lemma validate_isValid:
  "isValid (validate config) = (violations (validate config) = [])"
  by (simp add: validate_def Let_def)

lemma validate_suggestedConfig:
  "suggestedConfig (validate config) =
     (if isValid (validate config) then None
      else Some (generateSuggestion config (violations (validate config))))"
  by (simp add: validate_def Let_def)

text \<open>
  Claim C1. The result of \<open>validate\<close> is valid exactly when its list of violations is
  empty, and a result with no violation is valid also when it carries warnings.
\<close>

theorem validate_valid_iff_no_violations:
  "isValid (validate config) = (violations (validate config) = [])
   \<and> (violations (validate config) = [] \<and> warnings (validate config) \<noteq> []
        \<longrightarrow> isValid (validate config))"
  by (simp add: validate_isValid)

theorem validate_valid_iff_no_violations_witness:
  "violations (validate tc14) = [] \<and> warnings (validate tc14) \<noteq> []
   \<and> isValid (validate tc14)"
  using validate_valid_iff_no_violations [of tc14]
  by (simp add: validate_violations validate_warnings allMessages_tc14 WARNING_RULE_IDS_def
      finding_def)

lemma ruleIds_validate:
  "ruleIds (violations (validate config) @ warnings (validate config)) = ruleIds (allMessages config)"
  by (auto simp: validate_violations validate_warnings ruleIds_def)

text \<open>
  Claim C4. For a configuration whose leg profile is the radial half-cylinder base, no
  finding of \<open>validate\<close>, violation or warning, has the rule identifier LEG-01, LEG-02,
  LEG-03, LEG-04, STAB-02, STAB-03 or SPAN-02.
\<close>

theorem radial_never_standard_findings:
  assumes "legProfileType config = radial_halfcylinder"
  shows "ruleIds (violations (validate config) @ warnings (validate config))
           \<inter> {''LEG-01'', ''LEG-02'', ''LEG-03'', ''LEG-04'', ''STAB-02'', ''STAB-03'', ''SPAN-02''}
         = {}"
proof -
  let ?bad = "{''LEG-01'', ''LEG-02'', ''LEG-03'', ''LEG-04'', ''STAB-02'', ''STAB-03'', ''SPAN-02''}"
  have "ruleIds (checkCompositeTop config) \<inter> ?bad = {}"
    using ruleIds_checkCompositeTop [of config] by auto
  moreover have "ruleIds (checkMaterialThickness config) \<inter> ?bad = {}"
    using ruleIds_checkMaterialThickness [of config] by auto
  moreover have "ruleIds (checkSpan config) \<inter> ?bad = {}"
    using ruleIds_checkSpan_radial [OF assms] by auto
  moreover have "ruleIds (checkStability config) \<inter> ?bad = {}"
    using ruleIds_checkStability_radial [OF assms] by auto
  moreover have "ruleIds (checkLegRules config) \<inter> ?bad = {}"
    using ruleIds_checkLegRules_radial [OF assms] by auto
  moreover have "ruleIds (checkHeight config) \<inter> ?bad = {}"
    using ruleIds_checkHeight [of config] by auto
  moreover have "ruleIds (checkEdge config) \<inter> ?bad = {}"
    using ruleIds_checkEdge [of config] by auto
  ultimately have "ruleIds (allMessages config) \<inter> ?bad = {}"
    unfolding allMessages_def ruleIds_append Int_Un_distrib2 by simp
  then show ?thesis
    by (simp only: ruleIds_validate)
qed

theorem radial_never_standard_findings_witness:
  "legProfileType tc19 = radial_halfcylinder
   \<and> violations (validate tc19) = [finding ''RADIAL-01'' ''legRadialSpreadMm'']
   \<and> ruleIds (violations (validate tc19) @ warnings (validate tc19))
       \<inter> {''LEG-01'', ''LEG-02'', ''LEG-03'', ''LEG-04'', ''STAB-02'', ''STAB-03'', ''SPAN-02''}
     = {}"
proof -
  have radial: "legProfileType tc19 = radial_halfcylinder"
    by (simp add: tc19_def)
  have "violations (validate tc19) = [finding ''RADIAL-01'' ''legRadialSpreadMm'']"
    by (simp add: validate_violations allMessages_tc19 WARNING_RULE_IDS_def finding_def)
  then show ?thesis
    using radial radial_never_standard_findings [OF radial] by simp
qed

section \<open>Order of the findings\<close>

lemma position_engineOrder:
  "rid \<in> {''COMP-01'', ''COMP-02'', ''COMP-03''} \<Longrightarrow> position engineOrder rid = 0"
  "rid \<in> {''MAT-01'', ''MAT-02''} \<Longrightarrow> position engineOrder rid = 1"
  "rid \<in> {''SPAN-01'', ''SPAN-02''} \<Longrightarrow> position engineOrder rid = 2"
  "rid \<in> {''STAB-01'', ''STAB-02'', ''STAB-03''} \<Longrightarrow> position engineOrder rid = 3"
  "rid \<in> {''LEG-01'', ''LEG-02'', ''LEG-03'', ''LEG-04'', ''LEG-05'',
            ''RADIAL-01'', ''RADIAL-02'', ''RADIAL-03''} \<Longrightarrow> position engineOrder rid = 4"
  "rid \<in> {''HGT-01'', ''HGT-03''} \<Longrightarrow> position engineOrder rid = 5"
  "rid \<in> {''EDGE-01'', ''EDGE-02''} \<Longrightarrow> position engineOrder rid = 6"
  by (elim insertE emptyE; simp add: position_def checkerOf_def engineOrder_def)+

lemma position_of_checker:
  assumes "ruleIds ms \<subseteq> ids" and "\<And>rid. rid \<in> ids \<Longrightarrow> position ord rid = k"
  shows "\<forall>m \<in> set ms. position ord (ruleId m) = k"
  using assms by (auto simp: ruleIds_def)

lemma sorted_map_const: "\<forall>x \<in> set xs. f x = (k::nat) \<Longrightarrow> sorted (map f xs)"
  by (induction xs) auto

lemma sorted_map_append_const:
  assumes "\<forall>x \<in> set xs. f x = (k::nat)" and "sorted (map f ys)" and "\<forall>y \<in> set ys. k \<le> f y"
  shows "sorted (map f (xs @ ys))"
proof -
  have "sorted (map f xs)"
    using assms(1) by (rule sorted_map_const)
  then show ?thesis
    using assms by (auto simp: sorted_append)
qed

lemma allMessages_engine_order: "orderedBy engineOrder (allMessages config)"
proof -
  let ?p = "\<lambda>m. position engineOrder (ruleId m)"
  have c: "\<forall>m \<in> set (checkCompositeTop config). ?p m = 0"
    by (rule position_of_checker [OF ruleIds_checkCompositeTop position_engineOrder(1)])
  have m: "\<forall>m \<in> set (checkMaterialThickness config). ?p m = 1"
    by (rule position_of_checker [OF ruleIds_checkMaterialThickness position_engineOrder(2)])
  have s: "\<forall>m \<in> set (checkSpan config). ?p m = 2"
    by (rule position_of_checker [OF ruleIds_checkSpan position_engineOrder(3)])
  have st: "\<forall>m \<in> set (checkStability config). ?p m = 3"
    by (rule position_of_checker [OF ruleIds_checkStability position_engineOrder(4)])
  have l: "\<forall>m \<in> set (checkLegRules config). ?p m = 4"
    by (rule position_of_checker [OF ruleIds_checkLegRules position_engineOrder(5)])
  have h: "\<forall>m \<in> set (checkHeight config). ?p m = 5"
    by (rule position_of_checker [OF ruleIds_checkHeight position_engineOrder(6)])
  have e: "\<forall>m \<in> set (checkEdge config). ?p m = 6"
    by (rule position_of_checker [OF ruleIds_checkEdge position_engineOrder(7)])
  have 6: "sorted (map ?p (checkEdge config))"
    using e by (rule sorted_map_const)
  have 5: "sorted (map ?p (checkHeight config @ checkEdge config))"
    by (rule sorted_map_append_const [OF h 6]) (use e in auto)
  have 4: "sorted (map ?p (checkLegRules config @ checkHeight config @ checkEdge config))"
    by (rule sorted_map_append_const [OF l 5]) (use h e in auto)
  have 3: "sorted (map ?p (checkStability config @ checkLegRules config @ checkHeight config
             @ checkEdge config))"
    by (rule sorted_map_append_const [OF st 4]) (use l h e in auto)
  have 2: "sorted (map ?p (checkSpan config @ checkStability config @ checkLegRules config
             @ checkHeight config @ checkEdge config))"
    by (rule sorted_map_append_const [OF s 3]) (use st l h e in auto)
  have 1: "sorted (map ?p (checkMaterialThickness config @ checkSpan config
             @ checkStability config @ checkLegRules config @ checkHeight config
             @ checkEdge config))"
    by (rule sorted_map_append_const [OF m 2]) (use s st l h e in auto)
  have "sorted (map ?p (checkCompositeTop config @ checkMaterialThickness config
          @ checkSpan config @ checkStability config @ checkLegRules config
          @ checkHeight config @ checkEdge config))"
    by (rule sorted_map_append_const [OF c 1]) (use m s st l h e in auto)
  then show ?thesis
    by (simp only: orderedBy_def allMessages_def)
qed

lemma allMessages_tc17_beveled:
  "allMessages tc17_beveled
     = [finding ''COMP-01'' ''topFaceThicknessMm'', finding ''EDGE-02'' ''topEdgeFinish'']"
  by (simp add: allMessages_def tc17_beveled_def tc17_def tc01_def checker_defs rule_defs table_defs)

lemma violations_tc17_beveled:
  "violations (validate tc17_beveled)
     = [finding ''COMP-01'' ''topFaceThicknessMm'', finding ''EDGE-02'' ''topEdgeFinish'']"
  by (simp add: validate_violations allMessages_tc17_beveled WARNING_RULE_IDS_def finding_def)

text \<open>
  Claim C8, as amended. \<open>validate\<close> concatenates the checkers' findings in the order
  composite, material, span, stability, leg, height, edge: in the list of all findings and
  in the list of violations, no finding of a later checker of that order precedes a finding
  of an earlier one. Composite findings therefore come first, not last.
\<close>

theorem findings_follow_engine_order:
  "orderedBy engineOrder (allMessages config)
   \<and> orderedBy engineOrder (violations (validate config))"
  using allMessages_engine_order [of config]
  by (simp add: validate_violations orderedBy_def sorted_filter)

theorem findings_follow_engine_order_witness:
  "orderedBy engineOrder [finding ''COMP-01'' ''topFaceThicknessMm'', finding ''EDGE-02'' ''topEdgeFinish'']"
  using findings_follow_engine_order [of tc17_beveled]
  by (simp add: violations_tc17_beveled)

text \<open>
  Claim C8, as stated, fails: with the order material, span, stability, leg, height, edge,
  composite, the violations of TC-17 with a beveled edge are out of order, the composite
  finding COMP-01 standing before the edge finding EDGE-02.
\<close>

theorem composite_last_counterexample:
  "violations (validate tc17_beveled)
     = [finding ''COMP-01'' ''topFaceThicknessMm'', finding ''EDGE-02'' ''topEdgeFinish'']
   \<and> \<not> orderedBy claimedOrder (violations (validate tc17_beveled))"
  by (simp add: violations_tc17_beveled orderedBy_def position_def checkerOf_def
      claimedOrder_def finding_def)

section \<open>The suggester\<close>

text \<open>
  Claim C3. For every original configuration and every list of violations, the
  configuration that \<open>generateSuggestion\<close> returns has a total height equal to its leg
  height plus its top thickness, exactly.
\<close>

theorem generateSuggestion_total_height:
  "totalHeightMm (generateSuggestion original vs)
     = legHeightMm (generateSuggestion original vs)
       + topThicknessMm (generateSuggestion original vs)"
  by (simp add: generateSuggestion_def Let_def)

lemmas fix_defs =
  fix_MAT_01_def fix_MAT_02_def fix_SPAN_01_def fix_SPAN_02_def fix_STAB_01_def
  fix_STAB_02_def fix_STAB_03_def fix_LEG_01_def fix_LEG_02_def fix_LEG_03_def
  fix_LEG_04_def fix_HGT_01_def fix_HGT_03_def fix_EDGE_01_def fix_EDGE_02_def
  fix_COMP_01_def fix_COMP_02_def fix_COMP_03_def fix_RADIAL_01_def fix_RADIAL_02_def
  fix_RADIAL_03_def

lemma wellTyped_fixes:
  assumes "wellTyped config"
  shows "wellTyped (fix_MAT_01 config)" "wellTyped (fix_MAT_02 config)"
    "wellTyped (fix_SPAN_01 config)" "wellTyped (fix_SPAN_02 config)"
    "wellTyped (fix_STAB_01 config)" "wellTyped (fix_STAB_02 config)"
    "wellTyped (fix_STAB_03 config)" "wellTyped (fix_LEG_01 config)"
    "wellTyped (fix_LEG_02 config)" "wellTyped (fix_LEG_03 config)"
    "wellTyped (fix_LEG_04 config)" "wellTyped (fix_HGT_01 config)"
    "wellTyped (fix_HGT_03 config)" "wellTyped (fix_EDGE_01 config)"
    "wellTyped (fix_EDGE_02 config)" "wellTyped (fix_COMP_01 config)"
    "wellTyped (fix_COMP_02 config)" "wellTyped (fix_COMP_03 config)"
    "wellTyped (fix_RADIAL_01 config)" "wellTyped (fix_RADIAL_02 config)"
    "wellTyped (fix_RADIAL_03 config)"
  using assms by (simp_all add: fix_defs wellTyped_def Let_def split: option.splits)

lemma wellTyped_applyFix: "wellTyped config \<Longrightarrow> wellTyped (applyFix config v)"
  by (simp add: applyFix_def Let_def wellTyped_fixes)

lemma wellTyped_foldl_applyFix:
  "wellTyped config \<Longrightarrow> wellTyped (foldl applyFix config vs)"
  by (induction vs arbitrary: config) (simp_all add: wellTyped_applyFix)

lemma wellTyped_generateSuggestion:
  "wellTyped original \<Longrightarrow> wellTyped (generateSuggestion original vs)"
  using wellTyped_foldl_applyFix [of original vs]
  by (simp add: generateSuggestion_def Let_def wellTyped_def)

text \<open>
  Claim C2. The result of \<open>validate\<close> carries a suggested configuration exactly when it
  is not valid. The suggestion is a whole \<open>TableConfig\<close>, every required field
  populated, and it is well typed whenever the validated configuration is: its leg count
  is one of 1 to 6 and its half-cylinder count, when present, one of 3, 4, 5, 6, 8.
\<close>

theorem suggestion_iff_invalid:
  "(suggestedConfig (validate config) \<noteq> None) = (\<not> isValid (validate config))
   \<and> (wellTyped config \<longrightarrow>
        (\<forall>s. suggestedConfig (validate config) = Some s \<longrightarrow> wellTyped s))"
  by (auto simp: validate_suggestedConfig wellTyped_generateSuggestion split: if_splits)

lemma violations_tc19:
  "violations (validate tc19) = [finding ''RADIAL-01'' ''legRadialSpreadMm'']"
  by (simp add: validate_violations allMessages_tc19 WARNING_RULE_IDS_def finding_def)

lemma generateSuggestion_tc19:
  "generateSuggestion tc19 [finding ''RADIAL-01'' ''legRadialSpreadMm'']
     = tc19\<lparr>legRadialSpreadMm := Some 300\<rparr>"
  by (simp add: generateSuggestion_def applyFix_def fix_RADIAL_01_def Let_def finding_def
      Math_ceil_def tc19_def tc01_def)

theorem suggestion_iff_invalid_witness:
  "wellTyped tc19 \<and> \<not> isValid (validate tc19)
   \<and> suggestedConfig (validate tc19) = Some (tc19\<lparr>legRadialSpreadMm := Some 300\<rparr>)
   \<and> wellTyped (tc19\<lparr>legRadialSpreadMm := Some 300\<rparr>)"
proof -
  have wt: "wellTyped tc19"
    by (simp add: wellTyped_def tc19_def tc01_def)
  have invalid: "\<not> isValid (validate tc19)"
    by (simp add: validate_isValid violations_tc19)
  have sugg: "suggestedConfig (validate tc19) = Some (tc19\<lparr>legRadialSpreadMm := Some 300\<rparr>)"
    by (simp add: validate_suggestedConfig invalid violations_tc19 generateSuggestion_tc19)
  show ?thesis
    using suggestion_iff_invalid [of tc19] wt invalid sugg by simp
qed

section \<open>Repair without re-validation\<close>

lemma wellTyped_thin_quartz_beveled: "wellTyped thin_quartz_beveled"
  by (simp add: wellTyped_def thin_quartz_beveled_def)

lemma allMessages_thin_quartz_beveled:
  "allMessages thin_quartz_beveled
     = [finding ''MAT-01'' ''topThicknessMm'', finding ''EDGE-02'' ''topEdgeFinish'']"
  by (simp add: allMessages_def thin_quartz_beveled_def checker_defs rule_defs table_defs)

lemma violations_thin_quartz_beveled:
  "violations (validate thin_quartz_beveled)
     = [finding ''MAT-01'' ''topThicknessMm'', finding ''EDGE-02'' ''topEdgeFinish'']"
  by (simp add: validate_violations allMessages_thin_quartz_beveled WARNING_RULE_IDS_def
      finding_def)

lemma generateSuggestion_thin_quartz_beveled:
  "generateSuggestion thin_quartz_beveled
     [finding ''MAT-01'' ''topThicknessMm'', finding ''EDGE-02'' ''topEdgeFinish'']
   = thin_quartz_beveled\<lparr>topThicknessMm := 12, totalHeightMm := 442\<rparr>"
  by (simp add: generateSuggestion_def applyFix_def fix_MAT_01_def fix_EDGE_02_def matMin_def
      Let_def finding_def thin_quartz_beveled_def)

lemma allMessages_repaired_thin_quartz_beveled:
  "allMessages (thin_quartz_beveled\<lparr>topThicknessMm := 12, totalHeightMm := 442\<rparr>)
     = [finding ''MAT-01'' ''topThicknessMm'']"
  by (simp add: allMessages_def thin_quartz_beveled_def checker_defs rule_defs table_defs)

text \<open>
  Claim C9. There is a well-typed configuration that \<open>validate\<close> finds invalid and whose
  suggested configuration, validated again, still has a violation: a solid 10 mm quartz
  top with a beveled edge raises MAT-01 and EDGE-02; the MAT-01 fix raises the thickness to
  20, the EDGE-02 fix then sets it to 12, and the suggestion violates MAT-01 again.
\<close>

theorem repair_not_rule_clean:
  "\<exists>config. wellTyped config \<and> \<not> isValid (validate config)
     \<and> (\<exists>s. suggestedConfig (validate config) = Some s \<and> wellTyped s
            \<and> violations (validate s) \<noteq> [])"
proof -
  let ?c = thin_quartz_beveled
  let ?s = "thin_quartz_beveled\<lparr>topThicknessMm := 12, totalHeightMm := 442\<rparr>"
  have invalid: "\<not> isValid (validate ?c)"
    by (simp add: validate_isValid violations_thin_quartz_beveled)
  have "suggestedConfig (validate ?c) = Some ?s"
    by (simp add: validate_suggestedConfig invalid violations_thin_quartz_beveled
        generateSuggestion_thin_quartz_beveled)
  moreover have "wellTyped ?s"
    by (simp add: wellTyped_def thin_quartz_beveled_def)
  moreover have "violations (validate ?s) \<noteq> []"
    by (simp add: validate_violations allMessages_repaired_thin_quartz_beveled
        WARNING_RULE_IDS_def finding_def)
  ultimately show ?thesis
    using wellTyped_thin_quartz_beveled invalid by blast
qed

section \<open>A radial base with no spread\<close>

lemma other_checkers_ignore_spread:
  "checkCompositeTop (config\<lparr>legRadialSpreadMm := s\<rparr>) = checkCompositeTop config"
  "checkMaterialThickness (config\<lparr>legRadialSpreadMm := s\<rparr>) = checkMaterialThickness config"
  "checkSpan (config\<lparr>legRadialSpreadMm := s\<rparr>) = checkSpan config"
  "checkHeight (config\<lparr>legRadialSpreadMm := s\<rparr>) = checkHeight config"
  "checkEdge (config\<lparr>legRadialSpreadMm := s\<rparr>) = checkEdge config"
  by (simp_all add: checker_defs mat01_def mat02_def span01_def applicableRule_def
      pedestalMaxDiag_def effectiveSpan_def effectiveMaxSpan_def compositeMultiplier_def
      edgeEffectiveThickness_def
      cong: option.case_cong if_cong)

lemma stability_with_half_width_spread:
  assumes "legProfileType config = radial_halfcylinder" and "legRadialSpreadMm config = None"
  shows "checkStability (config\<lparr>legRadialSpreadMm := Some (topWidthMm config / 2)\<rparr>)
           = checkStability config"
  using assms
  by (simp add: checkStability_def stab01_def stab02_def stab03_def footprint_def isRadial_def)

lemma legRules_with_spread:
  assumes "legProfileType config = radial_halfcylinder" and "legRadialSpreadMm config = None"
  shows "checkLegRules (config\<lparr>legRadialSpreadMm := Some s\<rparr>)
           = radial01 (config\<lparr>legRadialSpreadMm := Some s\<rparr>) @ checkLegRules config"
  using assms
  by (simp add: checkLegRules_def radial01_def radial02_def radial03_def)

text \<open>
  Claim C10. For a radial half-cylinder base with no spread given, no finding has the rule
  identifier RADIAL-01, the footprint of the stability check is the top's width, and
  STAB-01 is raised exactly when width over total height is below the minimum ratio. The
  missing spread adds no finding of its own: every finding is also a finding of the same
  configuration with half the top's width given as spread.
\<close>

theorem missing_spread_skipped:
  assumes "legProfileType config = radial_halfcylinder"
    and "legRadialSpreadMm config = None"
  shows "''RADIAL-01'' \<notin> ruleIds (allMessages config)
    \<and> footprint config = topWidthMm config
    \<and> (''STAB-01'' \<in> ruleIds (checkStability config))
        = js_lt (js_div (topWidthMm config) (totalHeightMm config)) MIN_STABILITY_RATIO
    \<and> set (allMessages config)
        \<subseteq> set (allMessages (config\<lparr>legRadialSpreadMm := Some (topWidthMm config / 2)\<rparr>))"
proof -
  have leg: "''RADIAL-01'' \<notin> ruleIds (checkLegRules config)"
    using assms
    by (simp add: checkLegRules_def radial01_def radial02_def radial03_def
        ruleIds_append ruleIds_finding ruleIds_Nil split: option.splits)
  have "''RADIAL-01'' \<notin> ruleIds (allMessages config)"
    using leg ruleIds_checkCompositeTop [of config] ruleIds_checkMaterialThickness [of config]
      ruleIds_checkSpan [of config] ruleIds_checkStability [of config]
      ruleIds_checkHeight [of config] ruleIds_checkEdge [of config]
    by (auto simp: allMessages_def ruleIds_append)
  moreover have fp: "footprint config = topWidthMm config"
    using assms by (simp add: footprint_def)
  moreover have "(''STAB-01'' \<in> ruleIds (checkStability config))
        = js_lt (js_div (topWidthMm config) (totalHeightMm config)) MIN_STABILITY_RATIO"
    using assms
    by (simp add: checkStability_def stab01_def stab02_def stab03_def isRadial_def fp
        ruleIds_append ruleIds_finding ruleIds_Nil)
  moreover have "set (allMessages config)
        \<subseteq> set (allMessages (config\<lparr>legRadialSpreadMm := Some (topWidthMm config / 2)\<rparr>))"
    by (auto simp: allMessages_def other_checkers_ignore_spread
        stability_with_half_width_spread [OF assms] legRules_with_spread [OF assms])
  ultimately show ?thesis
    by simp
qed

lemma allMessages_tc19_no_spread: "allMessages tc19_no_spread = []"
  by (simp add: allMessages_def tc19_no_spread_def tc19_def tc01_def checker_defs rule_defs
      table_defs)

theorem missing_spread_skipped_witness:
  "legProfileType tc19_no_spread = radial_halfcylinder
   \<and> legRadialSpreadMm tc19_no_spread = None
   \<and> ''RADIAL-01'' \<notin> ruleIds (allMessages tc19_no_spread)
   \<and> footprint tc19_no_spread = 900
   \<and> ''STAB-01'' \<notin> ruleIds (checkStability tc19_no_spread)
   \<and> allMessages tc19_no_spread = []"
proof -
  have radial: "legProfileType tc19_no_spread = radial_halfcylinder"
    by (simp add: tc19_no_spread_def tc19_def)
  have none: "legRadialSpreadMm tc19_no_spread = None"
    by (simp add: tc19_no_spread_def)
  have width: "topWidthMm tc19_no_spread = 900" and height: "totalHeightMm tc19_no_spread = 750"
    by (simp_all add: tc19_no_spread_def tc19_def tc01_def)
  show ?thesis
    using missing_spread_skipped [OF radial none] radial none
    by (simp add: width height js_div_def MIN_STABILITY_RATIO_def allMessages_tc19_no_spread)
qed

section \<open>The span checker\<close>






lemma span01_iff:
  "(''SPAN-01'' \<in> ruleIds (span01 config))
     = (\<exists>rule. applicableRule config = Some rule
          \<and> topLengthMm config > effectiveMaxSpan config rule)"
  by (simp add: span01_def Let_def ruleIds_finding ruleIds_Nil split: option.splits)

lemma checkSpan_multi_leg:
  assumes "legCount config \<in> {2, 4, 6}"
    and "legProfileType config \<noteq> profile_pedestal"
  shows "checkSpan config = span01 config"
  using assms by (auto simp: checkSpan_def)

lemma checkSpan_pedestal:
  assumes "legCount config = 1 \<or> legProfileType config = profile_pedestal"
    and "legProfileType config \<noteq> radial_halfcylinder"
  shows "checkSpan config
           = (if effectiveSpan config > pedestalMaxDiag config
              then [finding ''SPAN-02'' ''topLengthMm''] else [])"
  using assms by (simp add: checkSpan_def)




lemma applicableRule_tc02:
  "applicableRule tc02
     = Some \<lparr>span_materials = [sintered_stone], span_minThicknessMm = 12, span_maxSpanMm = 900\<rparr>"
  by (simp add: applicableRule_def SPAN_LIMITS_4LEG_def tc02_def tc01_def)




lemma applicableRule_tc01:
  "applicableRule tc01
     = Some \<lparr>span_materials = [sintered_stone], span_minThicknessMm = 20, span_maxSpanMm = 1800\<rparr>"
  by (simp add: applicableRule_def SPAN_LIMITS_4LEG_def tc01_def)

lemma effectiveSpan_tc01: "effectiveSpan tc01 > 1800"
proof -
  have eq: "effectiveSpan tc01 = fl (sqrt 4050000)"
    by (simp add: effectiveSpan_def Math_sqrt_def js_evals tc01_def)
  have lower: "(2012::real) \<le> sqrt 4050000"
    by (rule real_le_rsqrt) simp
  have upper: "sqrt 4050000 < (2048::real)"
    by (rule real_less_lsqrt) simp_all
  have "real_of_int (2012 * 2 ^ 42) / 2 ^ nat (52 - 10) \<le> fl (sqrt 4050000)"
    using lower upper by (intro fl_ge_in_binade) simp_all
  then have "2012 \<le> fl (sqrt 4050000)"
    by simp
  then show ?thesis
    by (simp add: eq)
qed

text \<open>
  Claim C7, as stated, fails in the multi-leg branch: for TC-01, a rectangular 1800 by 900
  top on four legs, the tier that applies allows 1800 and the effective span, the
  diagonal, exceeds it, yet the span checker emits nothing.
\<close>

theorem span01_ignores_diagonal_counterexample:
  "legCount tc01 = 4 \<and> legProfileType tc01 = profile_square
   \<and> applicableRule tc01
       = Some \<lparr>span_materials = [sintered_stone], span_minThicknessMm = 20,
                span_maxSpanMm = 1800\<rparr>
   \<and> effectiveSpan tc01 > 1800 * compositeMultiplier tc01
   \<and> checkSpan tc01 = []"
proof -
  have solid: "topConstruction tc01 \<noteq> Some composite"
    and legs: "legCount tc01 = 4" and prof: "legProfileType tc01 = profile_square"
    and len: "topLengthMm tc01 = 1800"
    by (simp_all add: tc01_def)
  have "checkSpan tc01 = []"
    by (simp add: checkSpan_def legs prof span01_def applicableRule_tc01
        effectiveMaxSpan_def compositeMultiplier_solid [OF solid] js_mul_one fl_numeral len)
  moreover have "effectiveSpan tc01 > 1800 * compositeMultiplier tc01"
    using effectiveSpan_tc01 by (simp add: compositeMultiplier_solid [OF solid])
  ultimately show ?thesis
    using applicableRule_tc01 legs prof by simp
qed

text \<open>
  Claim C7, as amended. The effective span is the length (the diameter) for a round top and
  the diagonal of length and width, computed in doubles, otherwise. The pedestal branch compares the effective
  span with its limit: SPAN-02 is emitted exactly when the effective span exceeds the
  maximum diagonal. The multi-leg branch compares \<open>topLengthMm\<close> with its limit: SPAN-01
  is emitted exactly when a rule applies and the length exceeds the limit that the checker
  computes for that rule, \<open>effectiveMaxSpan\<close>.
\<close>

theorem span_checks_compared_value:
  "((legCount config = 1 \<or> legProfileType config = profile_pedestal)
      \<and> legProfileType config \<noteq> radial_halfcylinder \<longrightarrow>
      (''SPAN-02'' \<in> ruleIds (checkSpan config))
        = (effectiveSpan config > pedestalMaxDiag config))
   \<and> (legCount config \<in> {2, 4, 6} \<and> legProfileType config \<noteq> profile_pedestal \<longrightarrow>
        (''SPAN-01'' \<in> ruleIds (checkSpan config))
          = (\<exists>rule. applicableRule config = Some rule
               \<and> topLengthMm config > effectiveMaxSpan config rule))
   \<and> (topShapeType config = shape_round \<longrightarrow> effectiveSpan config = topLengthMm config)
   \<and> (topShapeType config \<noteq> shape_round \<longrightarrow>
        effectiveSpan config
          = Math_sqrt (js_add (js_pow2 (topLengthMm config)) (js_pow2 (topWidthMm config))))"
proof -
  have "(legCount config = 1 \<or> legProfileType config = profile_pedestal)
      \<and> legProfileType config \<noteq> radial_halfcylinder \<longrightarrow>
      (''SPAN-02'' \<in> ruleIds (checkSpan config))
        = (effectiveSpan config > pedestalMaxDiag config)"
    by (auto simp: checkSpan_pedestal ruleIds_finding ruleIds_Nil)
  moreover have "legCount config \<in> {2, 4, 6} \<and> legProfileType config \<noteq> profile_pedestal \<longrightarrow>
        (''SPAN-01'' \<in> ruleIds (checkSpan config))
          = (\<exists>rule. applicableRule config = Some rule
               \<and> topLengthMm config > effectiveMaxSpan config rule)"
    using checkSpan_multi_leg [of config] span01_iff [of config] by auto
  ultimately show ?thesis
    by (simp add: effectiveSpan_def)
qed

lemma pedestalMaxDiag_tc03: "pedestalMaxDiag tc03 = 1000"
  by (simp add: pedestalMaxDiag_def PEDESTAL_SPAN_LIMITS_def tc03_def tc01_def)

theorem span_checks_compared_value_witness:
  "(legCount tc03 = 1 \<or> legProfileType tc03 = profile_pedestal)
   \<and> legProfileType tc03 \<noteq> radial_halfcylinder
   \<and> topShapeType tc03 = shape_round
   \<and> effectiveSpan tc03 = 1200 \<and> pedestalMaxDiag tc03 = 1000
   \<and> ''SPAN-02'' \<in> ruleIds (checkSpan tc03)
   \<and> legCount tc02 \<in> {2, 4, 6} \<and> legProfileType tc02 \<noteq> profile_pedestal
   \<and> topShapeType tc02 \<noteq> shape_round
   \<and> effectiveSpan tc02 = Math_sqrt (js_add (js_pow2 1600) (js_pow2 800))
   \<and> topLengthMm tc02 = 1600
   \<and> ''SPAN-01'' \<in> ruleIds (checkSpan tc02)"
proof -
  have ped: "(legCount tc03 = 1 \<or> legProfileType tc03 = profile_pedestal)
      \<and> legProfileType tc03 \<noteq> radial_halfcylinder"
    and rnd: "topShapeType tc03 = shape_round" and len3: "topLengthMm tc03 = 1200"
    by (simp_all add: tc03_def tc01_def)
  have multi: "legCount tc02 \<in> {2, 4, 6} \<and> legProfileType tc02 \<noteq> profile_pedestal"
    and rect: "topShapeType tc02 \<noteq> shape_round"
    and len2: "topLengthMm tc02 = 1600" and wid2: "topWidthMm tc02 = 800"
    and solid: "topConstruction tc02 \<noteq> Some composite"
    by (simp_all add: tc02_def tc01_def)
  have "''SPAN-02'' \<in> ruleIds (checkSpan tc03)" and "effectiveSpan tc03 = 1200"
    using span_checks_compared_value [of tc03] ped rnd
    by (auto simp: len3 pedestalMaxDiag_tc03)
  moreover have "''SPAN-01'' \<in> ruleIds (checkSpan tc02)"
    and "effectiveSpan tc02 = Math_sqrt (js_add (js_pow2 1600) (js_pow2 800))"
    using span_checks_compared_value [of tc02] multi rect
    by (auto simp: applicableRule_tc02 effectiveMaxSpan_def
        compositeMultiplier_solid [OF solid] js_mul_one fl_numeral len2 wid2)
  ultimately show ?thesis
    using ped rnd multi rect len2 pedestalMaxDiag_tc03 by simp
qed

end
